theory Spec2Isabelle
  imports Complex_Main
begin

section \<open>The perceptron of posts/perceptron-blog-post/perceptron.py\<close>

text \<open>
  The class \<^verbatim>\<open>Perceptron\<close> has two attributes, \<^verbatim>\<open>w\<close> and \<^verbatim>\<open>history\<close>. The
  constructor sets neither, so each is absent (\<open>None\<close>) until \<^verbatim>\<open>fit\<close> assigns it.

  Floating-point numbers are exact reals: float64 rounding, infinities and NaN operands are
  not part of the model. A 2-D array is a record of its column count and its rows, so that
  an array with no rows still has a column count, as \<^verbatim>\<open>X.shape[1]\<close> has. A 1-D array of
  floats is a list. The label array \<^verbatim>\<open>y\<close> keeps its dtype, because \<^verbatim>\<open>2*y-1\<close> is computed
  in that dtype, with no cast: integer labels wrap at their width.
\<close>

subsection \<open>Data\<close>

datatype error = AttributeError | ValueError | IndexError | NotANumber

record perceptron =
  w :: "real list option"
  history :: "real list option"

record matrix =
  ncols :: nat
  rows :: "real list list"

definition shape0 :: "matrix \<Rightarrow> nat" where
  "shape0 X = length (rows X)"

definition shape1 :: "matrix \<Rightarrow> nat" where
  "shape1 X = ncols X"

text \<open>A record is a 2-D array when every row has the recorded number of columns.\<close>

definition wf_matrix :: "matrix \<Rightarrow> bool" where
  "wf_matrix X \<longleftrightarrow> list_all (\<lambda>r. length r = ncols X) (rows X)"

subsection \<open>Label arrays\<close>

text \<open>
  The dtypes a label array can have: a float type, a signed or an unsigned integer type of
  8, 16, 32 or 64 bits, or bool. \<open>len\<close> is its length and \<open>label_values\<close> its entries as
  numbers (\<^verbatim>\<open>True\<close> is \<open>1\<close>).
\<close>

datatype width = W8 | W16 | W32 | W64

fun bits :: "width \<Rightarrow> nat" where
  "bits W8 = 8"
| "bits W16 = 16"
| "bits W32 = 32"
| "bits W64 = 64"

datatype labels =
    Float_labels "real list"
  | Int_labels width "int list"
  | UInt_labels width "int list"
  | Bool_labels "bool list"

fun len :: "labels \<Rightarrow> nat" where
  "len (Float_labels vs) = length vs"
| "len (Int_labels b vs) = length vs"
| "len (UInt_labels b vs) = length vs"
| "len (Bool_labels bs) = length bs"

fun label_values :: "labels \<Rightarrow> real list" where
  "label_values (Float_labels vs) = vs"
| "label_values (Int_labels b vs) = map real_of_int vs"
| "label_values (UInt_labels b vs) = map real_of_int vs"
| "label_values (Bool_labels bs) = map (\<lambda>b. if b then 1 else 0) bs"

text \<open>Integer arithmetic of a given width: unsigned, and signed in two's complement.\<close>

definition wrap_unsigned :: "width \<Rightarrow> int \<Rightarrow> int" where
  "wrap_unsigned b v = v mod 2 ^ bits b"

definition wrap_signed :: "width \<Rightarrow> int \<Rightarrow> int" where
  "wrap_signed b v = (v + 2 ^ (bits b - 1)) mod 2 ^ bits b - 2 ^ (bits b - 1)"

text \<open>
  \<^verbatim>\<open>2*y-1\<close>. The Python scalars \<open>2\<close> and \<open>1\<close> take the dtype of an integer array, so the
  result wraps at the width of \<open>y\<close>: an unsigned \<open>0\<close> becomes the largest value of the type.
  A bool array is promoted to the default integer type by \<^verbatim>\<open>2*y\<close>, where \<open>-1\<close> and \<open>1\<close> are
  exact. The result is only used in float operations afterwards, so it is given as reals;
  the conversion of an integer to a float is taken as exact.
\<close>

fun shift_labels :: "labels \<Rightarrow> real list" where
  "shift_labels (Float_labels vs) = map (\<lambda>v. 2 * v - 1) vs"
| "shift_labels (Int_labels b vs) = map (\<lambda>v. real_of_int (wrap_signed b (2 * v - 1))) vs"
| "shift_labels (UInt_labels b vs) = map (\<lambda>v. real_of_int (wrap_unsigned b (2 * v - 1))) vs"
| "shift_labels (Bool_labels bs) = map (\<lambda>b. if b then 1 else - 1) bs"

text \<open>
  The arrays on which \<^verbatim>\<open>2*y-1\<close> does not wrap: every float and bool array, and an integer
  array when \<open>2 * v - 1\<close> is a value of its type for every entry \<open>v\<close>.
\<close>

fun no_wrap :: "labels \<Rightarrow> bool" where
  "no_wrap (Float_labels vs) = True"
| "no_wrap (Int_labels b vs) =
     list_all (\<lambda>v. - (2 ^ (bits b - 1)) \<le> 2 * v - 1 \<and> 2 * v - 1 < 2 ^ (bits b - 1)) vs"
| "no_wrap (UInt_labels b vs) = list_all (\<lambda>v. 0 \<le> 2 * v - 1 \<and> 2 * v - 1 < 2 ^ bits b) vs"
| "no_wrap (Bool_labels bs) = True"

subsection \<open>The numpy operations the class calls\<close>

text \<open>
  \<^verbatim>\<open>np.sign\<close>: \<open>-1\<close> for a negative number, \<open>0\<close> for zero, \<open>1\<close> for a positive one.
\<close>

definition np_sign :: "real \<Rightarrow> real" where
  "np_sign v = (if v < 0 then - 1 else if v = 0 then 0 else 1)"

definition dotp :: "real list \<Rightarrow> real list \<Rightarrow> real" where
  "dotp a b = sum_list (map2 (\<lambda>x y. x * y) a b)"

text \<open>\<^verbatim>\<open>np.dot\<close> of two 1-D arrays: a scalar, or ValueError when the lengths differ.\<close>

definition np_dot_vv :: "real list \<Rightarrow> real list \<Rightarrow> error + real" where
  "np_dot_vv a b = (if length a = length b then Inr (dotp a b) else Inl ValueError)"

text \<open>
  \<^verbatim>\<open>np.dot\<close> of a 2-D array and a 1-D array: one dot product per row, or ValueError
  when the column count is not the length of the vector.
\<close>

definition np_dot_mv :: "matrix \<Rightarrow> real list \<Rightarrow> error + real list" where
  "np_dot_mv X v =
     (if shape1 X = length v then Inr (map (\<lambda>r. dotp r v) (rows X)) else Inl ValueError)"

text \<open>
  \<^verbatim>\<open>+\<close> on two 1-D arrays, with numpy's broadcasting of an array of length one.
\<close>

definition np_add :: "real list \<Rightarrow> real list \<Rightarrow> error + real list" where
  "np_add a b =
     (if length a = length b then Inr (map2 (\<lambda>x y. x + y) a b)
      else if length a = 1 then Inr (map (\<lambda>y. hd a + y) b)
      else if length b = 1 then Inr (map (\<lambda>x. x + hd b) a)
      else Inl ValueError)"

text \<open>\<^verbatim>\<open>//\<close> on floats: the floor of the quotient (the divisor in the class is \<open>2\<close>).\<close>

definition floor_divide :: "real \<Rightarrow> real \<Rightarrow> real" where
  "floor_divide a b = of_int \<lfloor>a / b\<rfloor>"

text \<open>
  \<^verbatim>\<open>np.append(X, np.ones((X.shape[0], 1)), 1)\<close>: a column of ones after the last column.
\<close>

definition append_ones :: "matrix \<Rightarrow> matrix" where
  "append_ones X = \<lparr>ncols = ncols X + 1, rows = map (\<lambda>r. r @ [1]) (rows X)\<rparr>"

text \<open>
  The process-wide random generator is made explicit. \<^verbatim>\<open>np.random.rand(k)\<close> reads the
  first \<open>k\<close> values of a stream of samples of \<open>[0,1)\<close>; \<^verbatim>\<open>np.random.randint(n)\<close> reduces
  a raw draw to \<open>[0,n)\<close> and raises ValueError when \<open>n = 0\<close>.
\<close>

definition rand :: "(nat \<Rightarrow> real) \<Rightarrow> nat \<Rightarrow> real list" where
  "rand samples k = map samples [0..<k]"

definition randint :: "nat \<Rightarrow> nat \<Rightarrow> error + nat" where
  "randint n r = (if n = 0 then Inl ValueError else Inr (r mod n))"

text \<open>\<^verbatim>\<open>range(max_steps)\<close>: empty when \<^verbatim>\<open>max_steps\<close> is not positive.\<close>

definition py_range :: "int \<Rightarrow> nat list" where
  "py_range k = [0..<nat k]"

subsection \<open>The class\<close>

definition new_Perceptron :: perceptron where
  "new_Perceptron = \<lparr>w = None, history = None\<rparr>"

text \<open>
  \<^verbatim>\<open>validation\<close> is called on the 2-D array \<^verbatim>\<open>X_\<close> by \<^verbatim>\<open>score\<close> and on the single row
  \<^verbatim>\<open>X_[i]\<close> by \<^verbatim>\<open>fit\<close>; the second use is \<open>validation_row\<close>. Reading \<^verbatim>\<open>self.w\<close> fails
  before \<^verbatim>\<open>np.dot\<close> is entered.
\<close>

definition validation :: "perceptron \<Rightarrow> matrix \<Rightarrow> error + real list" where
  "validation m X =
     (case w m of
        None \<Rightarrow> Inl AttributeError
      | Some wv \<Rightarrow>
          (case np_dot_mv X wv of
             Inl e \<Rightarrow> Inl e
           | Inr d \<Rightarrow> Inr (map np_sign d)))"

definition validation_row :: "perceptron \<Rightarrow> real list \<Rightarrow> error + real" where
  "validation_row m x =
     (case w m of
        None \<Rightarrow> Inl AttributeError
      | Some wv \<Rightarrow>
          (case np_dot_vv x wv of
             Inl e \<Rightarrow> Inl e
           | Inr d \<Rightarrow> Inr (np_sign d)))"

text \<open>
  \<^verbatim>\<open>score\<close>. With no rows numpy divides \<open>0.0\<close> by \<open>0\<close> and returns nan without raising;
  nan is not a real, so the model reports that outcome as \<open>Inl NotANumber\<close>.
\<close>

definition score :: "perceptron \<Rightarrow> matrix \<Rightarrow> labels \<Rightarrow> error + real" where
  "score m X y =
     (let y' = shift_labels y;
          X' = append_ones X
      in case validation m X' of
           Inl e \<Rightarrow> Inl e
         | Inr s \<Rightarrow>
             (case np_dot_vv s y' of
                Inl e \<Rightarrow> Inl e
              | Inr d \<Rightarrow>
                  if shape0 X' = 0 then Inl NotANumber
                  else Inr (d / real (shape0 X'))))"

definition predict :: "perceptron \<Rightarrow> matrix \<Rightarrow> error + real list" where
  "predict m X =
     (case w m of
        None \<Rightarrow> Inl AttributeError
      | Some wv \<Rightarrow>
          (case np_dot_mv X wv of
             Inl e \<Rightarrow> Inl e
           | Inr d \<Rightarrow> Inr (map (\<lambda>v. floor_divide (np_sign v + 1) 2) d)))"

text \<open>
  The assignment to \<^verbatim>\<open>self.w\<close> in the loop body, for the drawn index \<open>i\<close>:
  \<^verbatim>\<open>self.w + np.where((y_[i]*self.validation(X_[i])) < 0, 1, 0)*y_[i]*X_[i]\<close>.
  \<^verbatim>\<open>X_[i]\<close> is in range, since \<open>i\<close> comes from \<^verbatim>\<open>randint(X_.shape[0])\<close>; \<^verbatim>\<open>y_[i]\<close>
  raises IndexError when \<open>y\<close> is shorter.
\<close>

definition update_w ::
  "perceptron \<Rightarrow> real list \<Rightarrow> matrix \<Rightarrow> nat \<Rightarrow> error + real list" where
  "update_w m y' X' i =
     (case w m of
        None \<Rightarrow> Inl AttributeError
      | Some wv \<Rightarrow>
          if \<not> i < length y' then Inl IndexError
          else
            (case validation_row m (rows X' ! i) of
               Inl e \<Rightarrow> Inl e
             | Inr s \<Rightarrow>
                 np_add wv
                   (map (\<lambda>x. (if y' ! i * s < 0 then 1 else 0) * y' ! i * x) (rows X' ! i))))"

text \<open>
  \<^verbatim>\<open>self.history.append(self.score(X, y))\<close>: the attribute is read before the call.
\<close>

definition log_score ::
  "perceptron \<Rightarrow> matrix \<Rightarrow> labels \<Rightarrow> error + perceptron" where
  "log_score m X y =
     (case history m of
        None \<Rightarrow> Inl AttributeError
      | Some h \<Rightarrow>
          (case score m X y of
             Inl e \<Rightarrow> Inl e
           | Inr sc \<Rightarrow> Inr (m\<lparr>history := Some (h @ [sc])\<rparr>)))"

text \<open>
  One pass of the loop body of \<^verbatim>\<open>fit\<close>, on the raw draw \<open>r\<close>. An exception leaves the
  object as the statements before it made it, so a failure carries the object too.
\<close>

definition fit_step ::
  "matrix \<Rightarrow> labels \<Rightarrow> matrix \<Rightarrow> nat \<Rightarrow> perceptron \<Rightarrow> error \<times> perceptron + perceptron" where
  "fit_step X y X' r m =
     (case randint (shape0 X') r of
        Inl e \<Rightarrow> Inl (e, m)
      | Inr i \<Rightarrow>
          (let y' = shift_labels y
           in case update_w m y' X' i of
                Inl e \<Rightarrow> Inl (e, m)
              | Inr wv' \<Rightarrow>
                  (let m' = m\<lparr>w := Some wv'\<rparr>
                   in case log_score m' X y of
                        Inl e \<Rightarrow> Inl (e, m')
                      | Inr m'' \<Rightarrow> Inr m'')))"

text \<open>The \<^verbatim>\<open>for\<close> loop: pass \<open>t\<close> uses the \<open>t\<close>-th raw draw.\<close>

fun fit_loop ::
  "matrix \<Rightarrow> labels \<Rightarrow> matrix \<Rightarrow> (nat \<Rightarrow> nat) \<Rightarrow> nat list \<Rightarrow> perceptron
    \<Rightarrow> error \<times> perceptron + perceptron" where
  "fit_loop X y X' draws [] m = Inr m"
| "fit_loop X y X' draws (t # ts) m =
     (case fit_step X y X' (draws t) m of
        Inl e \<Rightarrow> Inl e
      | Inr m' \<Rightarrow> fit_loop X y X' draws ts m')"

definition fit ::
  "perceptron \<Rightarrow> matrix \<Rightarrow> labels \<Rightarrow> int \<Rightarrow> (nat \<Rightarrow> real) \<Rightarrow> (nat \<Rightarrow> nat)
    \<Rightarrow> error \<times> perceptron + perceptron" where
  "fit m X y max_steps samples draws =
     (let X' = append_ones X;
          m1 = m\<lparr>w := Some (rand samples (shape1 X'))\<rparr>;
          m2 = m1\<lparr>history := Some []\<rparr>
      in fit_loop X y X' draws (py_range max_steps) m2)"

subsection \<open>The update in closed form\<close>

text \<open>
  The value that \<open>update_w\<close> returns when nothing fails, for the weights \<open>wv\<close>, the shifted
  label \<open>yi\<close> and the augmented row \<open>x\<close>. It names the right-hand side for the lemmas about
  the loop.
\<close>

definition new_w :: "real list \<Rightarrow> real \<Rightarrow> real list \<Rightarrow> real list" where
  "new_w wv yi x =
     (if yi * np_sign (dotp x wv) < 0 then map2 (\<lambda>a b. a + b) wv (map (\<lambda>c. yi * c) x) else wv)"

subsection \<open>The words of the specification\<close>

text \<open>
  The specification's glossary defines its sign function as \<open>-1\<close> on negative values and
  \<open>+1\<close> on all others, zero included. \<open>spec_sign\<close> follows those words; it is compared
  below with what \<open>validation\<close> computes.
\<close>

definition spec_sign :: "real \<Rightarrow> real" where
  "spec_sign v = (if v < 0 then - 1 else 1)"

text \<open>
  The specification's formula for the score: \<open>X~\<close> is \<open>X\<close> with a constant \<open>1\<close> column
  appended, entry \<open>i\<close> of the activation-sign vector is the sign of the dot product of row
  \<open>i\<close> of \<open>X~\<close> with the weights, and the score is the dot product of that vector with
  \<open>2y - 1\<close>, divided by the number of rows. The sign function is a parameter, and \<open>y\<close> is
  the list of the label values. With no rows the quotient is \<open>0/0\<close>, which is not a number.
\<close>

definition aug :: "matrix \<Rightarrow> nat \<Rightarrow> nat \<Rightarrow> real" where
  "aug X i j = (if j < ncols X then rows X ! i ! j else 1)"

definition score_formula ::
  "(real \<Rightarrow> real) \<Rightarrow> real list \<Rightarrow> matrix \<Rightarrow> real list \<Rightarrow> error + real" where
  "score_formula sg wv X y =
     (if shape0 X = 0 then Inl NotANumber
      else Inr ((\<Sum>i<shape0 X. sg (\<Sum>j<ncols X + 1. aug X i j * wv ! j) * (2 * y ! i - 1))
                  / real (shape0 X)))"

subsection \<open>Streams for the examples\<close>

text \<open>A sample stream that is constantly \<open>1/2\<close>, and two streams of raw draws.\<close>

definition samples_half :: "nat \<Rightarrow> real" where
  "samples_half k = 1 / 2"

definition draws_zero :: "nat \<Rightarrow> nat" where
  "draws_zero t = 0"

definition draws_succ :: "nat \<Rightarrow> nat" where
  "draws_succ t = t + 1"

section \<open>Facts about the numpy operations\<close>

lemma abs_np_sign: "\<bar>np_sign v\<bar> \<le> 1"
  by (simp add: np_sign_def)

lemma label_of_sign: "floor_divide (np_sign v + 1) 2 = (if 0 < v then 1 else 0)"
  by (simp add: floor_divide_def np_sign_def)

lemma dotp_Nil [simp]: "dotp [] b = 0" "dotp a [] = 0"
  by (simp_all add: dotp_def)

lemma dotp_Cons [simp]: "dotp (x # a) (y # b) = x * y + dotp a b"
  by (simp add: dotp_def)

lemma abs_dotp_le:
  assumes "length a = length b"
    and "\<forall>x\<in>set a. \<bar>x\<bar> \<le> 1" and "\<forall>x\<in>set b. \<bar>x\<bar> \<le> 1"
  shows "\<bar>dotp a b\<bar> \<le> real (length a)"
  using assms
proof (induction a b rule: list_induct2)
  case Nil
  then show ?case by simp
next
  case (Cons x xs y ys)
  have "\<bar>x * y\<bar> \<le> 1"
    using Cons.prems by (simp add: abs_mult mult_le_one)
  moreover have "\<bar>dotp xs ys\<bar> \<le> real (length xs)"
    using Cons by simp
  ultimately show ?case by simp
qed

lemma dotp_sum:
  "length a = length b \<Longrightarrow> dotp a b = (\<Sum>i<length a. a ! i * b ! i)"
proof (induction a b rule: list_induct2)
  case Nil
  then show ?case by simp
next
  case (Cons x xs y ys)
  have "(\<Sum>i<Suc (length xs). (x # xs) ! i * (y # ys) ! i) =
          x * y + (\<Sum>i<length xs. xs ! i * ys ! i)"
    by (simp only: sum.lessThan_Suc_shift nth_Cons_0 nth_Cons_Suc)
  then show ?case using Cons by simp
qed

lemma map2_add_zero:
  "length a = length b \<Longrightarrow> map2 (\<lambda>x y. x + y) a (map (\<lambda>x. (0::real) * x) b) = a"
  by (induction a b rule: list_induct2) simp_all

lemma shape0_append_ones [simp]: "shape0 (append_ones X) = shape0 X"
  by (simp add: shape0_def append_ones_def)

lemma shape1_append_ones [simp]: "shape1 (append_ones X) = ncols X + 1"
  by (simp add: shape1_def append_ones_def)

lemma row_append_ones:
  "i < shape0 X \<Longrightarrow> rows (append_ones X) ! i = rows X ! i @ [1]"
  by (simp add: shape0_def append_ones_def)

lemma wf_matrix_row: "wf_matrix X \<Longrightarrow> i < shape0 X \<Longrightarrow> length (rows X ! i) = ncols X"
  by (simp add: wf_matrix_def shape0_def list_all_length)

lemma activation_sum:
  assumes "length r = ncols X" and "length wv = ncols X + 1" and "r = rows X ! i"
  shows "dotp (r @ [1]) wv = (\<Sum>j<ncols X + 1. aug X i j * wv ! j)"
proof -
  have "dotp (r @ [1]) wv = (\<Sum>j<length (r @ [1]). (r @ [1]) ! j * wv ! j)"
    using assms(1,2) by (intro dotp_sum) simp
  also have "\<dots> = (\<Sum>j<ncols X + 1. aug X i j * wv ! j)"
    using assms(1,3) by (intro sum.cong) (auto simp add: aug_def nth_append)
  finally show ?thesis .
qed

section \<open>Facts about label arrays\<close>

lemma length_shift_labels [simp]: "length (shift_labels y) = len y"
  by (cases y) simp_all

lemma length_label_values [simp]: "length (label_values y) = len y"
  by (cases y) simp_all

lemma wrap_unsigned_id: "0 \<le> x \<Longrightarrow> x < 2 ^ bits b \<Longrightarrow> wrap_unsigned b x = x"
  by (simp add: wrap_unsigned_def)

lemma wrap_signed_id:
  assumes "- (2 ^ (bits b - 1)) \<le> x" and "x < 2 ^ (bits b - 1)"
  shows "wrap_signed b x = x"
proof -
  have "(2::int) ^ bits b = 2 * 2 ^ (bits b - 1)"
    by (cases b) simp_all
  then have "(x + 2 ^ (bits b - 1)) mod 2 ^ bits b = x + 2 ^ (bits b - 1)"
    using assms by (intro mod_pos_pos_trivial) simp_all
  then show ?thesis by (simp add: wrap_signed_def)
qed

text \<open>Without wrap the shifted labels are \<open>2 * v - 1\<close> for the label values \<open>v\<close>.\<close>

lemma shift_no_wrap:
  "no_wrap y \<Longrightarrow> shift_labels y = map (\<lambda>v. 2 * v - 1) (label_values y)"
proof (cases y)
  case (Float_labels vs)
  then show ?thesis by simp
next
  case (Int_labels b vs)
  assume "no_wrap y"
  then have "\<forall>v\<in>set vs. wrap_signed b (2 * v - 1) = 2 * v - 1"
    using Int_labels by (simp add: list_all_iff wrap_signed_id)
  then show ?thesis using Int_labels by simp
next
  case (UInt_labels b vs)
  assume "no_wrap y"
  then have "\<forall>v\<in>set vs. wrap_unsigned b (2 * v - 1) = 2 * v - 1"
    using UInt_labels by (simp add: list_all_iff wrap_unsigned_id)
  then show ?thesis using UInt_labels by simp
next
  case (Bool_labels bs)
  then show ?thesis by simp
qed

lemma shift_no_wrap_nth:
  "no_wrap y \<Longrightarrow> i < len y \<Longrightarrow> shift_labels y ! i = 2 * label_values y ! i - 1"
  by (simp add: shift_no_wrap)

text \<open>A signed integer array of labels \<open>0\<close> and \<open>1\<close> does not wrap, whatever its width.\<close>

lemma no_wrap_signed_binary: "set vs \<subseteq> {0, 1} \<Longrightarrow> no_wrap (Int_labels b vs)"
  by (cases b) (auto simp add: list_all_iff)

lemma shift_binary:
  assumes "no_wrap y" and "set (label_values y) \<subseteq> {0, 1}"
  shows "\<forall>v\<in>set (shift_labels y). \<bar>v\<bar> \<le> 1"
  using assms by (auto simp add: shift_no_wrap)

section \<open>The methods on a fitted model\<close>

lemma predict_fitted:
  assumes "w m = Some wv"
  shows "predict m X =
           (if shape1 X = length wv
            then Inr (map (\<lambda>r. floor_divide (np_sign (dotp r wv) + 1) 2) (rows X))
            else Inl ValueError)"
  using assms by (simp add: predict_def np_dot_mv_def comp_def)

lemma validation_fitted:
  assumes "w m = Some wv"
  shows "validation m X =
           (if shape1 X = length wv
            then Inr (map (\<lambda>r. np_sign (dotp r wv)) (rows X))
            else Inl ValueError)"
  using assms by (simp add: validation_def np_dot_mv_def comp_def)

lemma validation_row_fitted:
  assumes "w m = Some wv"
  shows "validation_row m x =
           (if length x = length wv then Inr (np_sign (dotp x wv)) else Inl ValueError)"
  using assms by (simp add: validation_row_def np_dot_vv_def)

lemma score_fitted:
  assumes "w m = Some wv"
  shows "score m X y =
           (if shape1 X + 1 \<noteq> length wv \<or> shape0 X \<noteq> len y then Inl ValueError
            else if shape0 X = 0 then Inl NotANumber
            else Inr (dotp (map (\<lambda>r. np_sign (dotp (r @ [1]) wv)) (rows X))
                        (shift_labels y) / real (shape0 X)))"
  using assms
  by (auto simp add: score_def validation_fitted append_ones_def shape1_def shape0_def
          np_dot_vv_def comp_def Let_def)

lemma score_Inr_fitted:
  assumes "score m X y = Inr s"
  shows "\<exists>wv. w m = Some wv \<and> shape1 X + 1 = length wv \<and> shape0 X = len y \<and> shape0 X \<noteq> 0"
proof (cases "w m")
  case None
  then show ?thesis using assms by (simp add: score_def validation_def)
next
  case (Some wv)
  then show ?thesis using assms by (auto simp add: score_fitted split: if_splits)
qed

text \<open>
  Whatever the shapes, a score that is returned lies between \<open>-1\<close> and \<open>1\<close> when the shifted
  labels do: each summand of the dot product is then a product of two numbers of absolute
  value at most one.
\<close>

lemma score_bounds:
  assumes "\<forall>v\<in>set (shift_labels y). \<bar>v\<bar> \<le> 1" and "score m X y = Inr s"
  shows "- 1 \<le> s \<and> s \<le> 1"
proof -
  obtain wv where wv: "w m = Some wv" "shape1 X + 1 = length wv"
    "shape0 X = len y" "shape0 X \<noteq> 0"
    using score_Inr_fitted [OF assms(2)] by blast
  define sg where "sg = map (\<lambda>r. np_sign (dotp (r @ [1]) wv)) (rows X)"
  define y' where "y' = shift_labels y"
  have s: "s = dotp sg y' / real (shape0 X)"
    using assms(2) wv by (simp add: score_fitted sg_def y'_def)
  have "length sg = length y'"
    using wv by (simp add: sg_def y'_def shape0_def)
  moreover have "\<forall>x\<in>set sg. \<bar>x\<bar> \<le> 1"
    by (auto simp add: sg_def abs_np_sign)
  moreover have "\<forall>x\<in>set y'. \<bar>x\<bar> \<le> 1"
    using assms(1) by (simp add: y'_def)
  ultimately have "\<bar>dotp sg y'\<bar> \<le> real (length sg)"
    by (rule abs_dotp_le)
  moreover have "length sg = shape0 X"
    by (simp add: sg_def shape0_def)
  ultimately have "\<bar>dotp sg y'\<bar> \<le> real (shape0 X)" by simp
  then have "\<bar>s\<bar> \<le> 1"
    using wv(4) by (simp add: s field_simps)
  then show ?thesis by (simp add: abs_le_iff)
qed

lemma score_range_no_wrap:
  assumes "no_wrap y" and "set (label_values y) \<subseteq> {0, 1}" and "score m X y = Inr s"
  shows "- 1 \<le> s \<and> s \<le> 1"
  using score_bounds [OF shift_binary [OF assms(1,2)] assms(3)] .

section \<open>The training loop\<close>

lemma length_new_w: "length x = length wv \<Longrightarrow> length (new_w wv yi x) = length wv"
  by (simp add: new_w_def)

lemma update_w_fitted:
  assumes "w m = Some wv" and "i < length y'" and "length (rows X' ! i) = length wv"
  shows "update_w m y' X' i = Inr (new_w wv (y' ! i) (rows X' ! i))"
  using assms
  by (simp add: update_w_def validation_row_fitted np_add_def new_w_def map2_add_zero)

text \<open>A pass on valid arguments succeeds, sets the weights and appends one score.\<close>

lemma fit_step_valid:
  assumes "wf_matrix X" and "w m = Some wv" and "length wv = ncols X + 1"
    and "history m = Some h" and "shape0 X \<noteq> 0" and "len y = shape0 X"
  shows "\<exists>sc. fit_step X y (append_ones X) r m =
            Inr \<lparr>w = Some (new_w wv (shift_labels y ! (r mod shape0 X))
                            (rows X ! (r mod shape0 X) @ [1])),
                 history = Some (h @ [sc])\<rparr>"
proof -
  define i where "i = r mod shape0 X"
  define wv' where "wv' = new_w wv (shift_labels y ! i) (rows X ! i @ [1])"
  have i: "i < shape0 X" using assms(5) by (simp add: i_def)
  have len: "length (rows (append_ones X) ! i) = length wv"
    using assms(1,3) i by (simp add: row_append_ones wf_matrix_row)
  have upd: "update_w m (shift_labels y) (append_ones X) i = Inr wv'"
    using assms(2,6) i len by (simp add: update_w_fitted wv'_def row_append_ones)
  have "length wv' = ncols X + 1"
    using len assms(3) i by (simp add: wv'_def length_new_w row_append_ones)
  then obtain sc where sc: "score (m\<lparr>w := Some wv'\<rparr>) X y = Inr sc"
    using assms(5,6) by (simp add: score_fitted [of _ wv'] shape1_def)
  have "fit_step X y (append_ones X) r m =
          Inr (m\<lparr>w := Some wv', history := Some (h @ [sc])\<rparr>)"
    using assms(4,5) upd sc by (simp add: fit_step_def randint_def i_def log_score_def)
  moreover have "m\<lparr>w := Some wv', history := Some (h @ [sc])\<rparr> =
      \<lparr>w = Some wv', history = Some (h @ [sc])\<rparr>"
    by simp
  ultimately show ?thesis unfolding wv'_def i_def by metis
qed

text \<open>What a pass that succeeded has done, whatever the arguments.\<close>

lemma fit_step_Inr_history:
  assumes "fit_step X y X' r m = Inr m'"
  shows "\<exists>h sc wv'. history m = Some h \<and> history m' = Some (h @ [sc]) \<and>
           score (m\<lparr>w := Some wv'\<rparr>) X y = Inr sc"
  using assms
  by (auto simp add: fit_step_def log_score_def Let_def
      split: sum.splits option.splits)

lemma fit_step_Inr_w:
  assumes "fit_step X y (append_ones X) r m = Inr m'"
    and "wf_matrix X" and "w m = Some wv" and "length wv = ncols X + 1"
  shows "\<exists>wv'. w m' = Some wv' \<and> length wv' = ncols X + 1"
proof -
  obtain i where i: "randint (shape0 X) r = Inr i"
    using assms(1) by (auto simp add: fit_step_def split: sum.splits)
  then have ilt: "i < shape0 X"
    by (auto simp add: randint_def split: if_splits)
  obtain wv' where upd: "update_w m (shift_labels y) (append_ones X) i = Inr wv'"
    and m': "w m' = Some wv'"
    using assms(1) i
    by (auto simp add: fit_step_def log_score_def Let_def split: sum.splits option.splits)
  have len: "length (rows (append_ones X) ! i) = length wv"
    using assms(2,4) ilt by (simp add: row_append_ones wf_matrix_row)
  have "i < length (shift_labels y)"
    using upd assms(3) by (auto simp add: update_w_def split: if_splits)
  then have "wv' = new_w wv (shift_labels y ! i) (rows (append_ones X) ! i)"
    using upd assms(3) len by (simp add: update_w_fitted)
  then have "length wv' = ncols X + 1"
    using len assms(4) by (simp add: length_new_w)
  then show ?thesis using m' by blast
qed

text \<open>The loop on valid arguments: every pass succeeds and the history grows by one.\<close>

lemma fit_loop_valid:
  assumes "wf_matrix X" and "shape0 X \<noteq> 0" and "len y = shape0 X"
  shows "w m = Some wv \<Longrightarrow> length wv = ncols X + 1 \<Longrightarrow> history m = Some h \<Longrightarrow>
         \<exists>wv' h'. fit_loop X y (append_ones X) draws ts m =
                    Inr \<lparr>w = Some wv', history = Some (h @ h')\<rparr> \<and>
                  length wv' = ncols X + 1 \<and> length h' = length ts"
proof (induction ts arbitrary: m wv h)
  case Nil
  then show ?case by (cases m) auto
next
  case (Cons t ts)
  let ?i = "draws t mod shape0 X"
  define wv1 where "wv1 = new_w wv (shift_labels y ! ?i) (rows X ! ?i @ [1])"
  obtain sc where step: "fit_step X y (append_ones X) (draws t) m =
      Inr \<lparr>w = Some wv1, history = Some (h @ [sc])\<rparr>"
    using fit_step_valid [OF assms(1) Cons.prems(1,2,3) assms(2,3)] wv1_def by blast
  have "?i < shape0 X" using assms(2) by simp
  then have "length wv1 = ncols X + 1"
    using Cons.prems(2) assms(1) by (simp add: wv1_def length_new_w wf_matrix_row)
  from Cons.IH [of "\<lparr>w = Some wv1, history = Some (h @ [sc])\<rparr>" wv1 "h @ [sc]"] this
  obtain wv' h' where rest:
    "fit_loop X y (append_ones X) draws ts \<lparr>w = Some wv1, history = Some (h @ [sc])\<rparr> =
       Inr \<lparr>w = Some wv', history = Some ((h @ [sc]) @ h')\<rparr>"
    "length wv' = ncols X + 1" "length h' = length ts"
    by auto
  have "fit_loop X y (append_ones X) draws (t # ts) m =
          Inr \<lparr>w = Some wv', history = Some (h @ (sc # h'))\<rparr>"
    using step rest(1) by simp
  moreover have "length (sc # h') = length (t # ts)" using rest(3) by simp
  ultimately show ?case using rest(2) by blast
qed

lemma fit_loop_history_bounds:
  assumes "\<forall>v\<in>set (shift_labels y). \<bar>v\<bar> \<le> 1"
  shows "fit_loop X y X' draws ts m = Inr m' \<Longrightarrow> history m = Some h \<Longrightarrow>
         \<forall>s\<in>set h. - 1 \<le> s \<and> s \<le> 1 \<Longrightarrow>
         \<exists>h'. history m' = Some h' \<and> (\<forall>s\<in>set h'. - 1 \<le> s \<and> s \<le> 1)"
proof (induction ts arbitrary: m h)
  case Nil
  then show ?case by simp
next
  case (Cons t ts)
  obtain m1 where step: "fit_step X y X' (draws t) m = Inr m1"
    and rest: "fit_loop X y X' draws ts m1 = Inr m'"
    using Cons.prems(1) by (auto split: sum.splits)
  obtain sc wv' where h1: "history m1 = Some (h @ [sc])"
    and sc: "score (m\<lparr>w := Some wv'\<rparr>) X y = Inr sc"
    using fit_step_Inr_history [OF step] Cons.prems(2) by auto
  have "- 1 \<le> sc \<and> sc \<le> 1"
    using score_bounds [OF assms sc] .
  then have "\<forall>s\<in>set (h @ [sc]). - 1 \<le> s \<and> s \<le> 1"
    using Cons.prems(3) by auto
  then show ?case
    using Cons.IH [OF rest h1] by blast
qed

lemma fit_loop_Inr_w:
  assumes "wf_matrix X"
  shows "fit_loop X y (append_ones X) draws ts m = Inr m' \<Longrightarrow> w m = Some wv \<Longrightarrow>
         length wv = ncols X + 1 \<Longrightarrow> \<exists>wv'. w m' = Some wv' \<and> length wv' = ncols X + 1"
proof (induction ts arbitrary: m wv)
  case Nil
  then show ?case by simp
next
  case (Cons t ts)
  obtain m1 where step: "fit_step X y (append_ones X) (draws t) m = Inr m1"
    and rest: "fit_loop X y (append_ones X) draws ts m1 = Inr m'"
    using Cons.prems(1) by (auto split: sum.splits)
  obtain wv1 where "w m1 = Some wv1" "length wv1 = ncols X + 1"
    using fit_step_Inr_w [OF step assms Cons.prems(2,3)] by blast
  then show ?case using Cons.IH [OF rest] by blast
qed

text \<open>\<^verbatim>\<open>fit\<close> overwrites both attributes before the loop, so the incoming object is irrelevant.\<close>

lemma fit_unfold:
  "fit m X y max_steps samples draws =
     fit_loop X y (append_ones X) draws (py_range max_steps)
       \<lparr>w = Some (rand samples (ncols X + 1)), history = Some []\<rparr>"
  by (cases m) (simp add: fit_def Let_def)

text \<open>The equations that evaluate the model on a concrete input.\<close>

lemmas eval_defs =
  fit_unfold fit_step_def update_w_def log_score_def score_def validation_def
  validation_row_def predict_def randint_def rand_def py_range_def np_add_def np_dot_vv_def
  np_dot_mv_def append_ones_def shape0_def shape1_def dotp_def np_sign_def floor_divide_def
  wf_matrix_def new_Perceptron_def Let_def upt_conv_Cons samples_half_def draws_zero_def
  draws_succ_def wrap_signed_def wrap_unsigned_def

section \<open>Claims\<close>

subsection \<open>C1: the update of a training step\<close>

text \<open>
  C1, as stated, takes the signed activation with the specification's sign function, for
  which a zero activation has sign \<open>+1\<close>. Take the single observation \<open>[-1]\<close> with the
  int64 label \<open>0\<close> and the weights \<open>[1/2, 1/2]\<close>: the augmented row \<open>[-1, 1]\<close> has activation
  \<open>0\<close>, the shifted label is \<open>-1\<close>, so the product of the shifted label with the
  specification's sign is negative and C1 requires the weights \<open>[3/2, -1/2]\<close>. The step
  leaves the weights as they were, and so does \<^verbatim>\<open>fit\<close> with one step from the initial
  weights \<open>[1/2, 1/2]\<close>.
\<close>

theorem update_rule_counterexample:
  "shift_labels (Int_labels W64 [0]) = [- 1] \<and>
   (- 1) * spec_sign (dotp [- 1, 1] [1 / 2, 1 / 2]) < 0 \<and>
   fit_step \<lparr>ncols = 1, rows = [[- 1]]\<rparr> (Int_labels W64 [0])
       (append_ones \<lparr>ncols = 1, rows = [[- 1]]\<rparr>) 0
       \<lparr>w = Some [1 / 2, 1 / 2], history = Some []\<rparr>
     = Inr \<lparr>w = Some [1 / 2, 1 / 2], history = Some [0]\<rparr> \<and>
   [1 / 2 + (- 1) * (- 1), 1 / 2 + (- 1) * 1] \<noteq> [1 / 2, 1 / (2::real)] \<and>
   fit new_Perceptron \<lparr>ncols = 1, rows = [[- 1]]\<rparr> (Int_labels W64 [0]) 1
       samples_half draws_zero
     = Inr \<lparr>w = Some [1 / 2, 1 / 2], history = Some [0]\<rparr>"
  by (simp add: eval_defs spec_sign_def)

text \<open>
  C1, amended. In a training step of \<^verbatim>\<open>fit\<close> on valid arguments whose label array does not
  wrap under \<^verbatim>\<open>2*y-1\<close> (every float or bool array, and every signed integer array of
  labels \<open>0\<close> and \<open>1\<close>), with drawn index \<open>i\<close>, shifted label \<open>2 * y\<^sub>i - 1\<close> and signed
  activation \<open>s\<close> the numpy sign (\<open>-1\<close>, \<open>0\<close> or \<open>+1\<close>) of the dot product of the augmented
  row \<open>i\<close> with the weights: if the product of the shifted label and \<open>s\<close> is negative, the
  weights become the old weights plus the shifted label times the augmented row, and
  otherwise (so whenever the activation is zero) they are left as they were. The step then
  appends one score to the history. Nothing is said here about label arrays that wrap.
\<close>

theorem update_rule:
  assumes "wf_matrix X" and "w m = Some wv" and "length wv = ncols X + 1"
    and "history m = Some h" and "shape0 X \<noteq> 0" and "len y = shape0 X"
    and "no_wrap y" and "i = r mod shape0 X"
  shows "\<exists>sc. fit_step X y (append_ones X) r m =
           Inr \<lparr>w = Some (if (2 * label_values y ! i - 1) *
                               np_sign (dotp (rows X ! i @ [1]) wv) < 0
                          then map2 (\<lambda>a b. a + b) wv
                                 (map (\<lambda>c. (2 * label_values y ! i - 1) * c) (rows X ! i @ [1]))
                          else wv),
                history = Some (h @ [sc])\<rparr>"
proof -
  have "r mod shape0 X < len y"
    using assms(5,6) by simp
  then have shifted: "shift_labels y ! (r mod shape0 X) =
      2 * label_values y ! (r mod shape0 X) - 1"
    using assms(7) by (rule shift_no_wrap_nth [rotated])
  from fit_step_valid [OF assms(1-6), of r] show ?thesis
    unfolding new_w_def shifted assms(8) .
qed

theorem update_rule_witness:
  "\<exists>sc. fit_step \<lparr>ncols = 1, rows = [[0], [0], [0]]\<rparr> (Int_labels W64 [1, 0, 0])
            (append_ones \<lparr>ncols = 1, rows = [[0], [0], [0]]\<rparr>) 4
            \<lparr>w = Some [1 / 2, 1 / 2], history = Some []\<rparr>
          = Inr \<lparr>w = Some [1 / 2, - 1 / 2], history = Some ([] @ [sc])\<rparr>"
  using update_rule [of "\<lparr>ncols = 1, rows = [[0], [0], [0]]\<rparr>"
      "\<lparr>w = Some [1 / 2, 1 / 2], history = Some []\<rparr>" "[1 / 2, 1 / 2]" "[]"
      "Int_labels W64 [1, 0, 0]" 1 4]
  by (simp add: wf_matrix_def shape0_def dotp_def np_sign_def)

subsection \<open>C2: the range that the docstring of score promises\<close>

text \<open>
  C2 requires every score, and so every element of the history, to lie in \<open>[0,1]\<close>, as the
  docstring of \<^verbatim>\<open>score\<close> says. On three observations \<open>[0]\<close> with int64 labels \<open>1, 0, 0\<close> and the
  weights \<open>[1/2, 1/2]\<close> every activation is positive, one label agrees and two disagree:
  \<open>score\<close> returns \<open>-1/3\<close>, and \<^verbatim>\<open>fit\<close> with one step, initial weights \<open>[1/2, 1/2]\<close> and
  drawn index \<open>0\<close> appends \<open>-1/3\<close> to the history.
\<close>

theorem score_negative_example:
  "score \<lparr>w = Some [1 / 2, 1 / 2], history = Some []\<rparr>
     \<lparr>ncols = 1, rows = [[0], [0], [0]]\<rparr> (Int_labels W64 [1, 0, 0]) = Inr (- 1 / 3) \<and>
   fit new_Perceptron \<lparr>ncols = 1, rows = [[0], [0], [0]]\<rparr> (Int_labels W64 [1, 0, 0]) 1
       samples_half draws_zero
     = Inr \<lparr>w = Some [1 / 2, 1 / 2], history = Some [- 1 / 3]\<rparr>"
  by (simp add: eval_defs)

subsection \<open>C3: the labels of predict\<close>

text \<open>
  C3, as stated, requires label \<open>1\<close> for a row whose dot product with the weights is zero.
  With weights \<open>[1/2, 1/2]\<close> the row \<open>[1, -1]\<close> has dot product \<open>0\<close> and \<open>predict\<close> returns
  \<open>0\<close> for it.
\<close>

theorem predict_zero_counterexample:
  "dotp [1, - 1] [1 / 2, 1 / 2] = 0 \<and>
   predict \<lparr>w = Some [1 / 2, 1 / 2], history = Some []\<rparr> \<lparr>ncols = 2, rows = [[1, - 1]]\<rparr>
     = Inr [0]"
  by (simp add: predict_def np_dot_mv_def shape1_def dotp_def np_sign_def floor_divide_def)

text \<open>
  C3, amended. For a fitted model and a matrix whose column count is the length of the
  weight vector, the output element of \<open>predict\<close> for a row is \<open>1\<close> when the dot product of
  the row with the weights is positive and \<open>0\<close> when it is negative or zero.
\<close>

theorem predict_labels:
  assumes "w m = Some wv" and "shape1 X = length wv"
  shows "predict m X = Inr (map (\<lambda>r. if 0 < dotp r wv then 1 else 0) (rows X))"
  using assms by (simp add: predict_fitted label_of_sign)

theorem predict_labels_witness:
  "predict \<lparr>w = Some [1, - 1], history = Some []\<rparr>
     \<lparr>ncols = 2, rows = [[2, 3], [3, 3], [3, 2]]\<rparr> = Inr [0, 0, 1]"
  using predict_labels [of "\<lparr>w = Some [1, - 1], history = Some []\<rparr>" "[1, - 1]"
      "\<lparr>ncols = 2, rows = [[2, 3], [3, 3], [3, 2]]\<rparr>"]
  by (simp add: shape1_def dotp_def)

subsection \<open>C4: the sign of an activation\<close>

text \<open>
  C4, as stated, requires a zero activation to have sign \<open>+1\<close>. With weights \<open>[1/2, 1/2]\<close>
  the augmented row \<open>[-1, 1]\<close> has activation \<open>0\<close>; \<open>validation\<close> returns \<open>0\<close> for it, in the
  use made by \<^verbatim>\<open>fit\<close> and in the use made by \<^verbatim>\<open>score\<close>, where the specification's sign
  is \<open>1\<close>.
\<close>

theorem sign_of_zero_counterexample:
  "dotp [- 1, 1] [1 / 2, 1 / 2] = 0 \<and>
   spec_sign (dotp [- 1, 1] [1 / 2, 1 / 2]) = 1 \<and>
   validation_row \<lparr>w = Some [1 / 2, 1 / 2], history = Some []\<rparr> [- 1, 1] = Inr 0 \<and>
   validation \<lparr>w = Some [1 / 2, 1 / 2], history = Some []\<rparr>
     \<lparr>ncols = 2, rows = [[- 1, 1]]\<rparr> = Inr [0]"
  by (simp add: validation_row_def validation_def np_dot_vv_def np_dot_mv_def shape1_def
      dotp_def np_sign_def spec_sign_def)

text \<open>
  C4, amended. The sign computed for an activation, by \<open>validation\<close> on a row (as \<^verbatim>\<open>fit\<close>
  calls it) and on every row of a matrix (as \<^verbatim>\<open>score\<close> calls it), is \<open>-1\<close> when the
  activation is negative, \<open>0\<close> when it is zero and \<open>+1\<close> when it is positive.
\<close>

theorem sign_of_activation:
  assumes "w m = Some wv"
  shows "(length x = length wv \<longrightarrow>
            validation_row m x =
              Inr (if dotp x wv < 0 then - 1 else if dotp x wv = 0 then 0 else 1)) \<and>
         (shape1 X = length wv \<longrightarrow>
            validation m X =
              Inr (map (\<lambda>r. if dotp r wv < 0 then - 1 else if dotp r wv = 0 then 0 else 1)
                     (rows X)))"
  using assms by (simp add: validation_row_fitted validation_fitted np_sign_def)

theorem sign_of_activation_witness:
  "validation_row \<lparr>w = Some [1, - 1], history = Some []\<rparr> [2, 3] = Inr (- 1) \<and>
   validation \<lparr>w = Some [1, - 1], history = Some []\<rparr>
     \<lparr>ncols = 2, rows = [[2, 3], [3, 3], [3, 2]]\<rparr> = Inr [- 1, 0, 1]"
  using sign_of_activation [of "\<lparr>w = Some [1, - 1], history = Some []\<rparr>" "[1, - 1]" "[2, 3]"
      "\<lparr>ncols = 2, rows = [[2, 3], [3, 3], [3, 2]]\<rparr>"]
  by (simp add: shape1_def dotp_def)

subsection \<open>C5: the score as a formula\<close>

text \<open>
  C5, as stated, equates the score with the specification's formula, whose activation-sign
  vector is taken with the specification's sign function. For the single observation \<open>[-1]\<close>
  with the int64 label \<open>1\<close> and the weights \<open>[1/2, 1/2]\<close> the activation is \<open>0\<close>: \<open>score\<close>
  returns \<open>0\<close> and the formula gives \<open>1\<close>.
\<close>

theorem score_formula_counterexample:
  "score \<lparr>w = Some [1 / 2, 1 / 2], history = Some []\<rparr> \<lparr>ncols = 1, rows = [[- 1]]\<rparr>
     (Int_labels W64 [1]) = Inr 0 \<and>
   score_formula spec_sign [1 / 2, 1 / 2] \<lparr>ncols = 1, rows = [[- 1]]\<rparr>
     (label_values (Int_labels W64 [1])) = Inr 1"
  by (simp add: eval_defs score_formula_def aug_def spec_sign_def lessThan_Suc)

text \<open>
  C5, amended. For a fitted model with weights \<open>wv\<close>, a matrix \<open>X\<close> with \<open>n\<close> rows whose
  column count is one less than the length of \<open>wv\<close>, and a label array \<open>y\<close> of length \<open>n\<close>
  that does not wrap under \<^verbatim>\<open>2*y-1\<close> (every float or bool array, and every signed integer
  array of labels \<open>0\<close> and \<open>1\<close>), \<open>score\<close> returns exactly the dot product of the
  activation-sign vector with the shifted labels \<open>2y - 1\<close>, divided by \<open>n\<close> (not a number
  when \<open>n = 0\<close>), where the activations are those of \<open>X\<close> with a constant \<open>1\<close> column
  appended and the sign is numpy's, with sign \<open>0\<close> for a zero activation. Nothing is said
  here about label arrays that wrap.
\<close>

theorem score_is_dot_product_formula:
  assumes "w m = Some wv" and "wf_matrix X" and "length wv = ncols X + 1"
    and "len y = shape0 X" and "no_wrap y"
  shows "score m X y = score_formula np_sign wv X (label_values y)"
proof (cases "shape0 X = 0")
  case True
  then show ?thesis
    using assms by (simp add: score_fitted shape1_def score_formula_def)
next
  case False
  let ?sg = "map (\<lambda>r. np_sign (dotp (r @ [1]) wv)) (rows X)"
  let ?v = "label_values y"
  have y': "shift_labels y = map (\<lambda>v. 2 * v - 1) ?v"
    using assms(5) by (rule shift_no_wrap)
  have len: "length ?sg = length (shift_labels y)"
    using assms(4) by (simp add: shape0_def)
  have "dotp ?sg (shift_labels y) = (\<Sum>i<length ?sg. ?sg ! i * shift_labels y ! i)"
    using len by (rule dotp_sum)
  also have "\<dots> = (\<Sum>i<shape0 X.
      np_sign (\<Sum>j<ncols X + 1. aug X i j * wv ! j) * (2 * ?v ! i - 1))"
  proof (intro sum.cong)
    show "{..<length ?sg} = {..<shape0 X}" by (simp add: shape0_def)
  next
    fix i assume "i \<in> {..<shape0 X}"
    then have i: "i < shape0 X" by simp
    then have "dotp (rows X ! i @ [1]) wv = (\<Sum>j<ncols X + 1. aug X i j * wv ! j)"
      using assms(2,3) by (intro activation_sum) (simp_all add: wf_matrix_row)
    moreover have "shift_labels y ! i = 2 * ?v ! i - 1"
      using i assms(4) by (simp add: y')
    ultimately show "?sg ! i * shift_labels y ! i =
        np_sign (\<Sum>j<ncols X + 1. aug X i j * wv ! j) * (2 * ?v ! i - 1)"
      using i by (simp add: shape0_def)
  qed
  finally have "Inr (dotp ?sg (shift_labels y) / real (shape0 X)) =
      score_formula np_sign wv X ?v"
    using False by (simp add: score_formula_def)
  then show ?thesis
    using assms False by (simp add: score_fitted shape1_def)
qed

theorem score_is_dot_product_formula_witness:
  "score \<lparr>w = Some [1, - 2], history = Some []\<rparr> \<lparr>ncols = 1, rows = [[1], [2], [3]]\<rparr>
     (Int_labels W64 [1, 0, 0])
     = score_formula np_sign [1, - 2] \<lparr>ncols = 1, rows = [[1], [2], [3]]\<rparr> [1, 0, 0] \<and>
   score_formula np_sign [1, - 2] \<lparr>ncols = 1, rows = [[1], [2], [3]]\<rparr> [1, 0, 0]
     = Inr (- 2 / 3) \<and>
   score \<lparr>w = Some [1, - 2], history = Some []\<rparr> \<lparr>ncols = 1, rows = []\<rparr> (Float_labels [])
     = Inl NotANumber"
  using score_is_dot_product_formula [of "\<lparr>w = Some [1, - 2], history = Some []\<rparr>" "[1, - 2]"
      "\<lparr>ncols = 1, rows = [[1], [2], [3]]\<rparr>" "Int_labels W64 [1, 0, 0]"]
    score_is_dot_product_formula [of "\<lparr>w = Some [1, - 2], history = Some []\<rparr>" "[1, - 2]"
      "\<lparr>ncols = 1, rows = []\<rparr>" "Float_labels []"]
  by (simp add: wf_matrix_def shape0_def score_formula_def aug_def np_sign_def lessThan_Suc
      numeral_3_eq_3)

subsection \<open>C6: predict takes the matrix as it is\<close>

text \<open>
  C6. \<open>predict\<close> appends no column of ones: on a fitted model it takes the dot product of
  each row of \<open>X\<close> as given with the weights, and it fails with numpy's shape error
  (ValueError) whenever the column count of \<open>X\<close> is not the length of the weights, without
  truncating or padding. After \<^verbatim>\<open>fit\<close> has returned on a matrix of \<open>p\<close> columns the weights
  have length \<open>p + 1\<close>, so \<open>predict\<close> fails on every matrix whose column count is not
  \<open>p + 1\<close>, the fitted matrix included.
\<close>

theorem predict_does_not_augment:
  "(w m = Some wv \<longrightarrow>
      predict m X =
        (if shape1 X = length wv
         then Inr (map (\<lambda>r. floor_divide (np_sign (dotp r wv) + 1) 2) (rows X))
         else Inl ValueError)) \<and>
   (wf_matrix X0 \<and> fit m0 X0 y max_steps samples draws = Inr m \<and> shape1 X \<noteq> shape1 X0 + 1 \<longrightarrow>
      predict m X = Inl ValueError)"
proof (intro conjI impI)
  assume "w m = Some wv"
  then show "predict m X =
        (if shape1 X = length wv
         then Inr (map (\<lambda>r. floor_divide (np_sign (dotp r wv) + 1) 2) (rows X))
         else Inl ValueError)"
    by (rule predict_fitted)
next
  assume a: "wf_matrix X0 \<and> fit m0 X0 y max_steps samples draws = Inr m \<and>
    shape1 X \<noteq> shape1 X0 + 1"
  let ?m1 = "\<lparr>w = Some (rand samples (ncols X0 + 1)), history = Some []\<rparr>"
  have loop: "fit_loop X0 y (append_ones X0) draws (py_range max_steps) ?m1 = Inr m"
    using a by (simp add: fit_unfold)
  have "w ?m1 = Some (rand samples (ncols X0 + 1))"
    and "length (rand samples (ncols X0 + 1)) = ncols X0 + 1"
    by (simp_all add: rand_def)
  from fit_loop_Inr_w [OF _ loop this] a
  obtain wv' where "w m = Some wv'" and "length wv' = ncols X0 + 1"
    by blast
  then show "predict m X = Inl ValueError"
    using a by (simp add: predict_fitted shape1_def)
qed

theorem predict_does_not_augment_witness:
  "predict \<lparr>w = Some [1 / 2, 1 / 2, 1 / 2], history = Some [1]\<rparr>
      \<lparr>ncols = 3, rows = [[1, 0, - 2]]\<rparr> = Inr [0] \<and>
   fit new_Perceptron \<lparr>ncols = 2, rows = [[1, 0]]\<rparr> (Int_labels W64 [1]) 1
       samples_half draws_zero
     = Inr \<lparr>w = Some [1 / 2, 1 / 2, 1 / 2], history = Some [1]\<rparr> \<and>
   predict \<lparr>w = Some [1 / 2, 1 / 2, 1 / 2], history = Some [1]\<rparr>
      \<lparr>ncols = 2, rows = [[1, 0]]\<rparr> = Inl ValueError"
  using predict_does_not_augment [of "\<lparr>w = Some [1 / 2, 1 / 2, 1 / 2], history = Some [1]\<rparr>"
      "[1 / 2, 1 / 2, 1 / 2]" "\<lparr>ncols = 3, rows = [[1, 0, - 2]]\<rparr>"
      "\<lparr>ncols = 2, rows = [[1, 0]]\<rparr>" new_Perceptron "Int_labels W64 [1]" 1 samples_half draws_zero]
    predict_does_not_augment [of "\<lparr>w = Some [1 / 2, 1 / 2, 1 / 2], history = Some [1]\<rparr>"
      "[1 / 2, 1 / 2, 1 / 2]" "\<lparr>ncols = 2, rows = [[1, 0]]\<rparr>"
      "\<lparr>ncols = 2, rows = [[1, 0]]\<rparr>" new_Perceptron "Int_labels W64 [1]" 1 samples_half draws_zero]
  by (simp add: eval_defs)

subsection \<open>C7: the number of passes\<close>

text \<open>
  C7. On valid arguments (a matrix with at least one row, one label per row) and
  \<open>max_steps \<ge> 0\<close>, \<^verbatim>\<open>fit\<close> returns, with no failure and whatever the scores were, and the
  history then has length \<open>max_steps\<close>; every pass of the loop that succeeds appends exactly
  one value to the history. With \<open>max_steps = 0\<close> the history is empty and the weights are
  the initial draw.
\<close>

theorem fit_runs_max_steps:
  assumes "wf_matrix X" and "shape0 X \<noteq> 0" and "len y = shape0 X" and "0 \<le> max_steps"
  shows "(\<exists>wv h. fit m X y max_steps samples draws = Inr \<lparr>w = Some wv, history = Some h\<rparr> \<and>
            int (length h) = max_steps) \<and>
         (max_steps = 0 \<longrightarrow>
            fit m X y max_steps samples draws =
              Inr \<lparr>w = Some (rand samples (ncols X + 1)), history = Some []\<rparr>) \<and>
         (fit_step X y (append_ones X) r m1 = Inr m2 \<longrightarrow>
            (\<exists>h sc. history m1 = Some h \<and> history m2 = Some (h @ [sc])))"
proof (intro conjI impI)
  let ?m0 = "\<lparr>w = Some (rand samples (ncols X + 1)), history = Some []\<rparr>"
  have "w ?m0 = Some (rand samples (ncols X + 1))"
    and "length (rand samples (ncols X + 1)) = ncols X + 1"
    and "history ?m0 = Some []"
    by (simp_all add: rand_def)
  from fit_loop_valid [OF assms(1-3) this, of draws "py_range max_steps"]
  obtain wv h where "fit_loop X y (append_ones X) draws (py_range max_steps) ?m0 =
      Inr \<lparr>w = Some wv, history = Some h\<rparr>" and "length h = length (py_range max_steps)"
    by auto
  then have "fit m X y max_steps samples draws = Inr \<lparr>w = Some wv, history = Some h\<rparr>"
    and "int (length h) = max_steps"
    using assms(4) by (simp_all add: fit_unfold py_range_def)
  then show "\<exists>wv h. fit m X y max_steps samples draws = Inr \<lparr>w = Some wv, history = Some h\<rparr> \<and>
      int (length h) = max_steps"
    by blast
next
  assume "max_steps = 0"
  then show "fit m X y max_steps samples draws =
      Inr \<lparr>w = Some (rand samples (ncols X + 1)), history = Some []\<rparr>"
    by (simp add: fit_unfold py_range_def)
next
  assume "fit_step X y (append_ones X) r m1 = Inr m2"
  then show "\<exists>h sc. history m1 = Some h \<and> history m2 = Some (h @ [sc])"
    using fit_step_Inr_history by blast
qed

theorem fit_runs_max_steps_witness:
  "(\<exists>wv h. fit new_Perceptron \<lparr>ncols = 1, rows = [[0], [0], [0]]\<rparr> (Int_labels W64 [1, 0, 0]) 3
             samples_half draws_succ = Inr \<lparr>w = Some wv, history = Some h\<rparr> \<and>
           int (length h) = 3) \<and>
   fit new_Perceptron \<lparr>ncols = 1, rows = [[0], [0], [0]]\<rparr> (Int_labels W64 [1, 0, 0]) 0
       samples_half draws_succ = Inr \<lparr>w = Some [1 / 2, 1 / 2], history = Some []\<rparr> \<and>
   (\<exists>h sc. history \<lparr>w = Some [1 / 2, 1 / 2], history = Some [1 / 3]\<rparr> = Some h \<and>
        history \<lparr>w = Some [1 / 2, - 1 / 2], history = Some [1 / 3, 1 / 3]\<rparr> = Some (h @ [sc]))"
proof -
  let ?X = "\<lparr>ncols = 1, rows = [[0], [0], [0]]\<rparr>"
  have hyp: "wf_matrix ?X \<and> shape0 ?X \<noteq> 0 \<and> len (Int_labels W64 [1, 0, 0]) = shape0 ?X \<and>
      (0::int) \<le> 3"
    by (simp add: wf_matrix_def shape0_def)
  have step: "fit_step ?X (Int_labels W64 [1, 0, 0]) (append_ones ?X) 1
      \<lparr>w = Some [1 / 2, 1 / 2], history = Some [1 / 3]\<rparr> =
      Inr \<lparr>w = Some [1 / 2, - 1 / 2], history = Some [1 / 3, 1 / 3]\<rparr>"
    by (simp add: eval_defs)
  show ?thesis
    using fit_runs_max_steps [of ?X "Int_labels W64 [1, 0, 0]" 3 new_Perceptron samples_half draws_succ 1
        "\<lparr>w = Some [1 / 2, 1 / 2], history = Some [1 / 3]\<rparr>"
        "\<lparr>w = Some [1 / 2, - 1 / 2], history = Some [1 / 3, 1 / 3]\<rparr>"]
      fit_runs_max_steps [of ?X "Int_labels W64 [1, 0, 0]" 0 new_Perceptron samples_half draws_succ 1
        "\<lparr>w = Some [1 / 2, 1 / 2], history = Some [1 / 3]\<rparr>"
        "\<lparr>w = Some [1 / 2, - 1 / 2], history = Some [1 / 3, 1 / 3]\<rparr>"]
      hyp step
    by (simp add: rand_def samples_half_def upt_conv_Cons)
qed

subsection \<open>C8: the methods of a model that was never fitted\<close>

text \<open>
  C8. On a freshly constructed model, on which \<^verbatim>\<open>fit\<close> was never called, both \<^verbatim>\<open>score\<close>
  and \<^verbatim>\<open>predict\<close> fail on reading the absent attribute \<^verbatim>\<open>w\<close>, whatever the arguments,
  and the failure is what the caller receives.
\<close>

theorem unfitted_model_raises:
  "score new_Perceptron X y = Inl AttributeError \<and>
   predict new_Perceptron X = Inl AttributeError"
  by (simp add: score_def validation_def predict_def new_Perceptron_def)

theorem unfitted_model_raises_witness:
  "score new_Perceptron \<lparr>ncols = 2, rows = [[1, 0], [0, 1]]\<rparr> (Int_labels W64 [1, 0])
     = Inl AttributeError \<and>
   predict new_Perceptron \<lparr>ncols = 2, rows = [[1, 0], [0, 1]]\<rparr> = Inl AttributeError"
  using unfitted_model_raises [of "\<lparr>ncols = 2, rows = [[1, 0], [0, 1]]\<rparr>"
      "Int_labels W64 [1, 0]"]
  by simp

subsection \<open>C9: predict returns labels\<close>

text \<open>
  C9. For a fitted model and a matrix whose column count is the length of the weight vector,
  \<open>predict\<close> returns one element per row and every element is \<open>0\<close> or \<open>1\<close>, also for a row
  whose dot product with the weights is zero.
\<close>

theorem predict_binary:
  assumes "w m = Some wv" and "shape1 X = length wv"
  shows "\<exists>ps. predict m X = Inr ps \<and> length ps = shape0 X \<and> set ps \<subseteq> {0, 1}"
  using assms by (auto simp add: predict_fitted label_of_sign shape0_def)

theorem predict_binary_witness:
  "\<exists>ps. predict \<lparr>w = Some [1, - 1], history = Some []\<rparr>
          \<lparr>ncols = 2, rows = [[2, 3], [3, 3], [3, 2]]\<rparr> = Inr ps \<and>
        length ps = shape0 \<lparr>ncols = 2, rows = [[2, 3], [3, 3], [3, 2]]\<rparr> \<and> set ps \<subseteq> {0, 1}"
  using predict_binary [of "\<lparr>w = Some [1, - 1], history = Some []\<rparr>" "[1, - 1]"
      "\<lparr>ncols = 2, rows = [[2, 3], [3, 3], [3, 2]]\<rparr>"]
  by (simp add: shape1_def)

subsection \<open>C10: the range of the score\<close>

text \<open>
  C10 requires every score for labels in \<open>{0,1}\<close>, and so every element of the history, to
  lie in \<open>[-1,1]\<close>. The comment of the source on \<^verbatim>\<open>2*y-1\<close> says that it shifts \<open>0\<close> and
  \<open>1\<close> to \<open>-1\<close> and \<open>1\<close>; for the labels \<open>1, 0, 0\<close> held as unsigned 8-bit integers it
  gives \<open>1, 255, 255\<close>. On three observations \<open>[0]\<close> and the weights \<open>[1/2, 1/2]\<close> every
  activation is positive: \<open>score\<close> returns \<open>511/3\<close>, and \<^verbatim>\<open>fit\<close> with one step, initial
  weights \<open>[1/2, 1/2]\<close> and drawn index \<open>0\<close> appends \<open>511/3\<close> to the history.
\<close>

theorem score_unsigned_labels_example:
  "set (label_values (UInt_labels W8 [1, 0, 0])) \<subseteq> {0, 1} \<and>
   shift_labels (UInt_labels W8 [1, 0, 0]) = [1, 255, 255] \<and>
   score \<lparr>w = Some [1 / 2, 1 / 2], history = Some []\<rparr>
     \<lparr>ncols = 1, rows = [[0], [0], [0]]\<rparr> (UInt_labels W8 [1, 0, 0]) = Inr (511 / 3) \<and>
   fit new_Perceptron \<lparr>ncols = 1, rows = [[0], [0], [0]]\<rparr> (UInt_labels W8 [1, 0, 0]) 1
       samples_half draws_zero
     = Inr \<lparr>w = Some [1 / 2, 1 / 2], history = Some [511 / 3]\<rparr>"
  by (simp add: eval_defs)

end
